theory Spec2Isabelle
  imports Complex_Main
begin

section \<open>The ColorPicker component (gradio/components/color_picker.py)\<close>

text \<open>
  The file declares one class, \<^verbatim>\<open>ColorPicker(Component)\<close>: a class attribute
  \<^verbatim>\<open>EVENTS\<close>, a constructor that hands every option to the base class, three
  constant introspection methods and the two methods of the value pipeline,
  \<^verbatim>\<open>preprocess\<close> and \<^verbatim>\<open>postprocess\<close>.
\<close>

subsection \<open>Outcomes of a call\<close>

text \<open>
  A Python call either returns a value or raises. The outcome of a call is a value of
  \<open>error + 'a\<close>: \<open>Inr v\<close> for \<^verbatim>\<open>return v\<close>, \<open>Inl e\<close> for an exception \<open>e\<close>
  that leaves the call.
\<close>

datatype error = ConfigurationError

text \<open>
  The nested call \<^verbatim>\<open>f(g(x))\<close>: \<open>g\<close> runs first, and an exception it raises leaves
  the whole expression before \<open>f\<close> is entered.
\<close>

fun and_then :: "error + 'a \<Rightarrow> ('a \<Rightarrow> error + 'b) \<Rightarrow> error + 'b" where
  "and_then (Inl e) f = Inl e"
| "and_then (Inr v) f = f v"

text \<open>
  The builtin \<^verbatim>\<open>str\<close> applied to a value that is a \<^verbatim>\<open>str\<close>: the result is the
  string with the same characters.
\<close>

definition str :: "string \<Rightarrow> string" where
  "str s = s"

subsection \<open>The types of the constructor's options\<close>

text \<open>
  \<^verbatim>\<open>value: str | Callable | None\<close>. A callable default takes no argument and
  yields the value of the widget, a string or \<^verbatim>\<open>None\<close>.
\<close>

datatype value_arg = Literal string | Computed "unit \<Rightarrow> string option"

text \<open>
  Modelled from the spec: the classes \<^verbatim>\<open>I18nData\<close> (gradio/i18n.py),
  \<^verbatim>\<open>Timer\<close> and \<^verbatim>\<open>Component\<close> (gradio/components) are imported by the file and
  are not part of it. An \<^verbatim>\<open>I18nData\<close> is a translation key; a timer and an upstream
  widget are entities with an identity, referred to by that identity.
\<close>

datatype I18nData = I18nData string

datatype Timer = Timer nat

datatype Component = Component nat

text \<open>\<^verbatim>\<open>inputs: Component | Sequence[Component] | set[Component] | None\<close>\<close>

datatype inputs_arg =
    One_Component Component
  | Component_Sequence "Component list"
  | Component_set "Component set"

text \<open>\<^verbatim>\<open>key: int | str | tuple[int | str, ...] | None\<close>\<close>

datatype key_arg =
    Key_int int
  | Key_str string
  | Key_tuple "(int + string) list"

text \<open>
  The keyword arguments of \<^verbatim>\<open>ColorPicker.__init__\<close>, one field for each, in the
  order of the signature. A union of two types is a sum, \<^verbatim>\<open>| None\<close> is \<open>option\<close>,
  \<^verbatim>\<open>float\<close> is \<open>real\<close> (only the sign of an interval is ever looked at).
\<close>

record kwargs =
  value' :: "value_arg option"
  label :: "(string + I18nData) option"
  info :: "(string + I18nData) option"
  every :: "(Timer + real) option"
  inputs :: "inputs_arg option"
  show_label :: "bool option"
  container :: bool
  scale :: "int option"
  min_width :: int
  interactive :: "bool option"
  visible :: bool
  elem_id :: "string option"
  elem_classes :: "(string list + string) option"
  render :: bool
  key :: "key_arg option"
  preserved_by_key :: "(string list + string) option"

text \<open>The defaults of the signature: what a call \<^verbatim>\<open>ColorPicker()\<close> passes.\<close>

definition default_kwargs :: kwargs where
  "default_kwargs =
     \<lparr> value' = None, label = None, info = None, every = None, inputs = None,
       show_label = None, container = True, scale = None, min_width = 160,
       interactive = None, visible = True, elem_id = None, elem_classes = None,
       render = True, key = None, preserved_by_key = Some (Inr ''value'') \<rparr>"

text \<open>
  A widget instance: the options it was built with and its current value
  (a string or \<^verbatim>\<open>None\<close>).
\<close>

record ColorPicker =
  config :: kwargs
  current_value :: "string option"

subsection \<open>The base class constructor\<close>

text \<open>
  Modelled from the spec: \<^verbatim>\<open>Component.__init__\<close> (gradio/components/base.py) is
  called by this file and defined outside it. The spec's section 4.2 gives the default
  as a literal (a string or the absent value), used as it is, or a zero-argument
  computation. On what \<^verbatim>\<open>every\<close> and \<^verbatim>\<open>inputs\<close> do beside a literal default the
  spec and this file disagree, and the file is followed: the docstring of
  \<^verbatim>\<open>ColorPicker.__init__\<close> says of both that they are used "if \<^verbatim>\<open>value\<close> is a function
  (has no effect otherwise)". So the base class constructor raises nothing: it builds
  the instance from the options. The value it gives a widget whose default is a
  computation is decided outside this file; it is the argument \<open>build_value\<close>.
\<close>

definition is_computed :: "value_arg option \<Rightarrow> bool" where
  "is_computed v = (case v of Some (Computed f) \<Rightarrow> True | _ \<Rightarrow> False)"

definition literal_value :: "value_arg option \<Rightarrow> string option" where
  "literal_value v = (case v of Some (Literal s) \<Rightarrow> Some s | _ \<Rightarrow> None)"

definition initial_value :: "(kwargs \<Rightarrow> string option) \<Rightarrow> kwargs \<Rightarrow> string option" where
  "initial_value build_value kw =
     (if is_computed (value' kw) then build_value kw else literal_value (value' kw))"

definition Component_init :: "(kwargs \<Rightarrow> string option) \<Rightarrow> kwargs \<Rightarrow> error + ColorPicker" where
  "Component_init build_value kw =
     Inr \<lparr> config = kw, current_value = initial_value build_value kw \<rparr>"

subsection \<open>The class ColorPicker\<close>

text \<open>
  Modelled from the spec: \<^verbatim>\<open>Events\<close> (gradio/events.py) is imported by this file
  and defined outside it. Its members are symbolic event kinds; a member is identified by its attribute name, so
  that \<^verbatim>\<open>Events.change\<close> is \<open>Events ''change''\<close>.
\<close>

datatype Events = Events string

text \<open>
  \<^verbatim>\<open>EVENTS = [Events.change, Events.input, Events.submit, Events.focus, Events.blur]\<close>
\<close>

definition EVENTS :: "Events list" where
  "EVENTS = [Events ''change'', Events ''input'', Events ''submit'', Events ''focus'',
     Events ''blur'']"

text \<open>
  \<^verbatim>\<open>__init__\<close> has no statement but the call of \<^verbatim>\<open>super().__init__\<close>, which gets
  every option under its own keyword; what that call returns or raises is the outcome
  of the construction.
\<close>

definition ColorPicker_init :: "(kwargs \<Rightarrow> string option) \<Rightarrow> kwargs \<Rightarrow> error + ColorPicker" where
  "ColorPicker_init build_value kw =
     Component_init build_value
       \<lparr> value' = value' kw, label = label kw, info = info kw, every = every kw,
         inputs = inputs kw, show_label = show_label kw, container = container kw,
         scale = scale kw, min_width = min_width kw, interactive = interactive kw,
         visible = visible kw, elem_id = elem_id kw, elem_classes = elem_classes kw,
         render = render kw, key = key kw, preserved_by_key = preserved_by_key kw \<rparr>"

text \<open>\<^verbatim>\<open>def example_payload(self) -> str: return "#000000"\<close>\<close>

definition example_payload :: "ColorPicker \<Rightarrow> string" where
  "example_payload self = ''#000000''"

text \<open>\<^verbatim>\<open>def example_value(self) -> str: return "#000000"\<close>\<close>

definition example_value :: "ColorPicker \<Rightarrow> string" where
  "example_value self = ''#000000''"

text \<open>
  \<^verbatim>\<open>def api_info(self) -> dict[str, Any]: return {"type": "string"}\<close>.
  The dictionary is a map from its keys to its values.
\<close>

definition api_info :: "ColorPicker \<Rightarrow> (string \<rightharpoonup> string)" where
  "api_info self = [''type'' \<mapsto> ''string'']"

text \<open>
  \<^verbatim>\<open>def preprocess(self, payload: str | None) -> str | None\<close>: \<^verbatim>\<open>None\<close> for
  \<^verbatim>\<open>None\<close>, \<^verbatim>\<open>str(payload)\<close> otherwise. Both branches return.
\<close>

definition preprocess :: "ColorPicker \<Rightarrow> string option \<Rightarrow> error + string option" where
  "preprocess self payload =
     (case payload of None \<Rightarrow> Inr None | Some p \<Rightarrow> Inr (Some (str p)))"

text \<open>
  \<^verbatim>\<open>def postprocess(self, value: str | None) -> str | None\<close>: the same two branches
  on \<^verbatim>\<open>value\<close>.
\<close>

definition postprocess :: "ColorPicker \<Rightarrow> string option \<Rightarrow> error + string option" where
  "postprocess self v =
     (case v of None \<Rightarrow> Inr None | Some s \<Rightarrow> Inr (Some (str s)))"

section \<open>Properties\<close>

subsection \<open>The two branches of each pipeline operation\<close>

lemma preprocess_None: "preprocess self None = Inr None"
  by (simp add: preprocess_def)

lemma preprocess_Some: "preprocess self (Some s) = Inr (Some s)"
  by (simp add: preprocess_def str_def)

lemma postprocess_None: "postprocess self None = Inr None"
  by (simp add: postprocess_def)

lemma postprocess_Some: "postprocess self (Some s) = Inr (Some s)"
  by (simp add: postprocess_def str_def)

lemma preprocess_returns_argument: "preprocess self x = Inr x"
  by (cases x) (simp_all add: preprocess_None preprocess_Some)

lemma postprocess_returns_argument: "postprocess self x = Inr x"
  by (cases x) (simp_all add: postprocess_None postprocess_Some)

subsection \<open>Construction\<close>

text \<open>
  The constructor adds nothing to the base class constructor and takes nothing away:
  every option reaches it as it was given.
\<close>

lemma ColorPicker_init_forwards:
  "ColorPicker_init build_value kw = Component_init build_value kw"
  by (cases kw) (simp add: ColorPicker_init_def)

text \<open>With no option given, the instance has no value.\<close>

lemma ColorPicker_init_default:
  "ColorPicker_init build_value default_kwargs =
     Inr \<lparr> config = default_kwargs, current_value = None \<rparr>"
  by (simp add: ColorPicker_init_forwards Component_init_def initial_value_def
      is_computed_def literal_value_def default_kwargs_def)

text \<open>A literal default is the value of the instance, whatever the other options are.\<close>

lemma initial_value_literal:
  "\<not> is_computed (value' kw) \<Longrightarrow> initial_value build_value kw = literal_value (value' kw)"
  by (simp add: initial_value_def)

text \<open>
  C1. The claim as stated, that a construction with \<^verbatim>\<open>inputs\<close> given and a default
  that is not a computation raises a configuration error, fails:
  \<^verbatim>\<open>ColorPicker("#ff0000", inputs=c)\<close>, for an upstream widget \<^verbatim>\<open>c\<close>, returns an
  instance whose value is \<^verbatim>\<open>"#ff0000"\<close>.
\<close>

theorem ColorPicker_init_inputs_literal_counterexample:
  "inputs (default_kwargs\<lparr> value' := Some (Literal ''#ff0000''),
       inputs := Some (One_Component (Component 1)) \<rparr>) \<noteq> None
   \<and> \<not> is_computed (value' (default_kwargs\<lparr> value' := Some (Literal ''#ff0000''),
       inputs := Some (One_Component (Component 1)) \<rparr>))
   \<and> ColorPicker_init Map.empty (default_kwargs\<lparr> value' := Some (Literal ''#ff0000''),
       inputs := Some (One_Component (Component 1)) \<rparr>) \<noteq> Inl ConfigurationError
   \<and> ColorPicker_init Map.empty (default_kwargs\<lparr> value' := Some (Literal ''#ff0000''),
       inputs := Some (One_Component (Component 1)) \<rparr>) =
     Inr \<lparr> config = default_kwargs\<lparr> value' := Some (Literal ''#ff0000''),
              inputs := Some (One_Component (Component 1)) \<rparr>,
           current_value = Some ''#ff0000'' \<rparr>"
  by (simp add: ColorPicker_init_forwards Component_init_def initial_value_def
      is_computed_def literal_value_def default_kwargs_def)

text \<open>
  C1, as amended. When the \<^verbatim>\<open>inputs\<close> option is given (it is not \<^verbatim>\<open>None\<close>) and the
  default value is not a computation (it is a string or \<^verbatim>\<open>None\<close>), the construction
  raises no error: it returns the instance, whose value is the literal default. The
  declared upstream widgets have no effect: the same construction without them
  returns an instance with the same value.
\<close>

theorem ColorPicker_init_inputs_without_computed_default:
  assumes "inputs kw \<noteq> None" and "\<not> is_computed (value' kw)"
  shows "ColorPicker_init build_value kw =
           Inr \<lparr> config = kw, current_value = literal_value (value' kw) \<rparr>
         \<and> ColorPicker_init build_value (kw\<lparr> inputs := None \<rparr>) =
           Inr \<lparr> config = kw\<lparr> inputs := None \<rparr>, current_value = literal_value (value' kw) \<rparr>"
proof
  show "ColorPicker_init build_value kw =
      Inr \<lparr> config = kw, current_value = literal_value (value' kw) \<rparr>"
    using assms(2)
    by (simp add: ColorPicker_init_forwards Component_init_def initial_value_literal)
next
  have "\<not> is_computed (value' (kw\<lparr> inputs := None \<rparr>))"
    using assms(2) by simp
  then show "ColorPicker_init build_value (kw\<lparr> inputs := None \<rparr>) =
      Inr \<lparr> config = kw\<lparr> inputs := None \<rparr>, current_value = literal_value (value' kw) \<rparr>"
    by (simp add: ColorPicker_init_forwards Component_init_def initial_value_literal)
qed

theorem ColorPicker_init_inputs_without_computed_default_witness:
  "inputs (default_kwargs\<lparr> value' := Some (Literal ''#00ff00''),
       inputs := Some (Component_Sequence [Component 1, Component 2]) \<rparr>) \<noteq> None
   \<and> \<not> is_computed (value' (default_kwargs\<lparr> value' := Some (Literal ''#00ff00''),
       inputs := Some (Component_Sequence [Component 1, Component 2]) \<rparr>))
   \<and> ColorPicker_init Map.empty (default_kwargs\<lparr> value' := Some (Literal ''#00ff00''),
       inputs := Some (Component_Sequence [Component 1, Component 2]) \<rparr>) =
     Inr \<lparr> config = default_kwargs\<lparr> value' := Some (Literal ''#00ff00''),
              inputs := Some (Component_Sequence [Component 1, Component 2]) \<rparr>,
           current_value = Some ''#00ff00'' \<rparr>
   \<and> ColorPicker_init Map.empty (default_kwargs\<lparr> value' := Some (Literal ''#00ff00'') \<rparr>) =
     Inr \<lparr> config = default_kwargs\<lparr> value' := Some (Literal ''#00ff00'') \<rparr>,
           current_value = Some ''#00ff00'' \<rparr>"
proof -
  let ?kw = "default_kwargs\<lparr> value' := Some (Literal ''#00ff00''),
       inputs := Some (Component_Sequence [Component 1, Component 2]) \<rparr>"
  have given: "inputs ?kw \<noteq> None"
    by (simp add: default_kwargs_def)
  have literal: "\<not> is_computed (value' ?kw)"
    by (simp add: default_kwargs_def is_computed_def)
  have without: "?kw\<lparr> inputs := None \<rparr> = default_kwargs\<lparr> value' := Some (Literal ''#00ff00'') \<rparr>"
    by (simp add: default_kwargs_def)
  have lit: "literal_value (value' ?kw) = Some ''#00ff00''"
    by (simp add: literal_value_def)
  from given literal
    ColorPicker_init_inputs_without_computed_default [OF given literal, of Map.empty]
  show ?thesis
    unfolding without lit by simp
qed

subsection \<open>The value pipeline\<close>

text \<open>
  C2. For every string \<open>s\<close>, \<^verbatim>\<open>preprocess\<close> returns \<open>s\<close> unchanged and
  \<^verbatim>\<open>postprocess\<close> returns \<open>s\<close> unchanged.
\<close>

theorem pipeline_identity_on_strings:
  "preprocess self (Some s) = Inr (Some s) \<and> postprocess self (Some s) = Inr (Some s)"
  by (simp add: preprocess_Some postprocess_Some)

text \<open>
  C3. \<^verbatim>\<open>preprocess(None)\<close> returns \<^verbatim>\<open>None\<close> and \<^verbatim>\<open>postprocess(None)\<close> returns
  \<^verbatim>\<open>None\<close>.
\<close>

theorem pipeline_preserves_None:
  "preprocess self None = Inr None \<and> postprocess self None = Inr None"
  by (simp add: preprocess_None postprocess_None)

text \<open>
  C4. Both operations are idempotent on a string or \<^verbatim>\<open>None\<close>: the outcome of
  \<^verbatim>\<open>preprocess(preprocess(x))\<close> is the outcome of \<^verbatim>\<open>preprocess(x)\<close>, and the same
  for \<^verbatim>\<open>postprocess\<close>.
\<close>

theorem pipeline_idempotent:
  "and_then (preprocess self x) (preprocess self) = preprocess self x
   \<and> and_then (postprocess self x) (postprocess self) = postprocess self x"
  by (simp add: preprocess_returns_argument postprocess_returns_argument)

text \<open>
  C5. For every argument that is a string or \<^verbatim>\<open>None\<close>, each operation returns a
  result, itself a string or \<^verbatim>\<open>None\<close>; neither raises.
\<close>

theorem pipeline_never_raises:
  "(\<exists>r. preprocess self x = Inr r) \<and> (\<exists>r. postprocess self x = Inr r)"
  by (simp add: preprocess_returns_argument postprocess_returns_argument)

subsection \<open>The declared events\<close>

text \<open>
  C6. The event kinds that \<^verbatim>\<open>EVENTS\<close> declares are exactly change, input, submit,
  focus and blur: each of the five is declared, nothing else is, and none is declared
  twice.
\<close>

theorem EVENTS_exactly_five_kinds:
  "set EVENTS =
     {Events ''change'', Events ''input'', Events ''submit'', Events ''focus'', Events ''blur''}
   \<and> distinct EVENTS \<and> length EVENTS = 5"
  by (simp add: EVENTS_def)

subsection \<open>Introspection\<close>

text \<open>
  C7. \<^verbatim>\<open>example_payload()\<close> and \<^verbatim>\<open>example_value()\<close> both return the string
  \<^verbatim>\<open>"#000000"\<close>; \<^verbatim>\<open>preprocess\<close> returns the example payload unchanged and
  \<^verbatim>\<open>postprocess\<close> returns the example value unchanged.
\<close>

theorem examples_are_fixed_points:
  "example_payload self = ''#000000'' \<and> example_value self = ''#000000''
   \<and> preprocess self (Some (example_payload self)) = Inr (Some (example_payload self))
   \<and> postprocess self (Some (example_value self)) = Inr (Some (example_value self))"
  by (simp add: example_payload_def example_value_def preprocess_Some postprocess_Some)

text \<open>
  C8. For every instance, \<^verbatim>\<open>api_info()\<close> returns the dictionary whose only key is
  \<^verbatim>\<open>"type"\<close>, with the value \<^verbatim>\<open>"string"\<close>.
\<close>

theorem api_info_is_type_string:
  "api_info self = [''type'' \<mapsto> ''string'']
   \<and> dom (api_info self) = {''type''}
   \<and> api_info self ''type'' = Some ''string''"
  by (simp add: api_info_def)

subsection \<open>The two operations compared\<close>

text \<open>
  C9. \<^verbatim>\<open>preprocess\<close> and \<^verbatim>\<open>postprocess\<close> have the same outcome on every string
  and on \<^verbatim>\<open>None\<close>; as functions of their argument they are equal.
\<close>

theorem preprocess_equals_postprocess:
  "preprocess self x = postprocess self x \<and> preprocess self = postprocess self"
  by (auto simp add: preprocess_returns_argument postprocess_returns_argument fun_eq_iff)

text \<open>
  C10. The outcome of \<^verbatim>\<open>preprocess\<close>, and of \<^verbatim>\<open>postprocess\<close>, is the same on any
  two instances, whatever their options and current values: the argument alone
  determines it.
\<close>

theorem pipeline_independent_of_instance:
  "preprocess a x = preprocess b x \<and> postprocess a x = postprocess b x"
  by (simp add: preprocess_returns_argument postprocess_returns_argument)

end
